theory Spec2Isabelle
  imports Main
begin

section \<open>Data model of \<open>createI18n.ts\<close>\<close>

text \<open>
  \<open>Locale\<close> (imported from core-i18n) is a string. \<open>Messages\<close> is an object whose own
  enumerable string keys are the locale tags; it is an association list here, in the
  order \<open>Object.keys\<close> enumerates it. The message structures themselves are opaque
  (\<open>'m\<close>): this file never looks inside them.
\<close>

type_synonym Locale = string

type_synonym 'm Messages = "(Locale \<times> 'm) list"

definition Object_keys :: "'m Messages \<Rightarrow> Locale list" where
  "Object_keys messages = map fst messages"

text \<open>
  \<open>Array.prototype.includes\<close> on a string array, searching for a string: a scan from
  the left, comparing with SameValueZero, which on two strings is equality of their
  contents.
\<close>

fun array_includes :: "string list \<Rightarrow> string \<Rightarrow> bool" where
  "array_includes [] s = False"
| "array_includes (x # xs) s = (x = s \<or> array_includes xs s)"

text \<open>
  What a \<open>getLocale\<close> callback can hand back. Its declared result type is
  \<open>string | null | undefined\<close>; numbers and booleans stand for the other non-string
  values an untyped caller could return.
\<close>

datatype js_value =
    JString string
  | JNull
  | JUndefined
  | JNumber int
  | JBoolean bool

fun typeof :: "js_value \<Rightarrow> string" where
  "typeof (JString s) = ''string''"
| "typeof JNull = ''object''"
| "typeof JUndefined = ''undefined''"
| "typeof (JNumber n) = ''number''"
| "typeof (JBoolean b) = ''boolean''"

text \<open>\<open>new Error(message)\<close>: the only exception class the file throws.\<close>

datatype error = Error string

text \<open>
  The module augmentation of \<open>hono\<close> (lines 4 to 10): the variable map of a context has
  an optional entry \<open>i18n\<close> holding an object \<open>{ locale: Locale }\<close>. \<open>None\<close> is the absent
  entry (\<open>undefined\<close>). The other variables of the map are the extension part of the
  record.
\<close>

record I18nVar =
  locale_tag :: Locale

record ContextVariableMap =
  i18n :: "I18nVar option"

text \<open>
  Hono's \<open>Context\<close> is a library object: of it the file uses \<open>c.get\<close> and \<open>c.set\<close> on the
  key \<open>"i18n"\<close>, and passes the whole object to \<open>getLocale\<close>. The model keeps the variable
  map and, as \<open>req\<close>, everything else a callback may read from the request.
\<close>

record ('req, 'vars) Context =
  req :: 'req
  var :: "'vars ContextVariableMap_scheme"

definition c_get_i18n :: "('req, 'vars) Context \<Rightarrow> I18nVar option" where
  "c_get_i18n c = i18n (var c)"

definition c_set_i18n :: "('req, 'vars) Context \<Rightarrow> I18nVar \<Rightarrow> ('req, 'vars) Context" where
  "c_set_i18n c v = c\<lparr>var := (var c)\<lparr>i18n := Some v\<rparr>\<rparr>"

text \<open>
  \<open>GetLocale\<close> (lines 12 to 16) and Hono's \<open>Next\<close>. The context is passed by reference
  down the chain, so \<open>next\<close> is a continuation: it is entered with the context as the
  middleware leaves it and answers with whatever the rest of the request's handling
  comes to (\<open>'a\<close>: its outcome, the state it leaves). An \<open>async\<close> function whose last
  statement is \<open>await next()\<close> settles as \<open>next\<close> does.

  The getter is a function of its three arguments that returns a value. A getter that
  throws ends the middleware at line 42, before anything is bound and before \<open>next\<close>;
  what follows is about the values a getter returns.
\<close>

type_synonym 'c GetLocale = "'c \<Rightarrow> Locale list \<Rightarrow> Locale \<Rightarrow> js_value"

type_synonym ('c, 'a) Next = "'c \<Rightarrow> 'a"

type_synonym ('c, 'a) MiddlewareHandler = "'c \<Rightarrow> ('c, 'a) Next \<Rightarrow> 'a"

section \<open>The functions of \<open>createI18n.ts\<close>\<close>

text \<open>
  \<open>createGetI18n\<close> (lines 18 to 30). \<open>createTranslate\<close> is core-i18n's factory, a
  parameter here. \<open>!i18n\<close> holds exactly for the absent entry: an object is never falsy.
\<close>

definition createGetI18n ::
  "('m Messages \<Rightarrow> Locale \<Rightarrow> 't) \<Rightarrow> 'm Messages \<Rightarrow> ('req, 'vars) Context \<Rightarrow> error + 't" where
  "createGetI18n createTranslate messages c =
     (case c_get_i18n c of
        None \<Rightarrow> Inl (Error ''createI18nMiddleware middleware not initialized'')
      | Some i18n_entry \<Rightarrow> Inr (createTranslate messages (locale_tag i18n_entry)))"

text \<open>
  \<open>createI18nMiddleware\<close> (lines 32 to 49). The conditional of line 43 keeps
  \<open>selectedLocale\<close> only when \<open>typeof\<close> says string and the array holds it; the
  \<open>case\<close> is the narrowing to the string inside.
\<close>

definition createI18nMiddleware ::
  "Locale list \<Rightarrow> Locale \<Rightarrow> ('req, 'vars) Context GetLocale
     \<Rightarrow> (('req, 'vars) Context, 'a) MiddlewareHandler" where
  "createI18nMiddleware locales defaultLocale getLocale c next =
     (let selectedLocale = getLocale c locales defaultLocale;
          selected =
            (case selectedLocale of
               JString s \<Rightarrow>
                 if typeof selectedLocale = ''string'' \<and> array_includes locales s
                 then s else defaultLocale
             | _ \<Rightarrow> defaultLocale);
          c' = c_set_i18n c \<lparr>locale_tag = selected\<rparr>
      in next c')"

text \<open>
  \<open>createI18n\<close> (lines 64 to 85): the check of line 77, then the two closures. \<open>Inl\<close> is
  the \<open>throw\<close>: nothing is returned. The middleware keeps the array that
  \<open>Object.keys(messages)\<close> gave at line 83.
\<close>

record ('c, 't, 'a) I18n =
  getI18n :: "'c \<Rightarrow> error + 't"
  i18nMiddleware :: "('c, 'a) MiddlewareHandler"

definition createI18n ::
  "('m Messages \<Rightarrow> Locale \<Rightarrow> 't) \<Rightarrow> 'm Messages \<Rightarrow> Locale \<Rightarrow> ('req, 'vars) Context GetLocale
     \<Rightarrow> error + (('req, 'vars) Context, 't, 'a) I18n" where
  "createI18n createTranslate messages defaultLocale getLocale =
     (if \<not> array_includes (Object_keys messages) defaultLocale
      then Inl (Error ''defaultLocale is not available in messages'')
      else Inr \<lparr>getI18n = createGetI18n createTranslate messages,
                i18nMiddleware =
                  createI18nMiddleware (Object_keys messages) defaultLocale getLocale\<rparr>)"

section \<open>The resolution rule in the specification's words\<close>

text \<open>
  Section 4.1: if the returned value is a string and an exact member of the supported
  locales, that value is the resolved locale; in every other case it is the default
  locale. Written from the sentence, to be compared with line 43.
\<close>

definition resolve_spec :: "Locale set \<Rightarrow> Locale \<Rightarrow> js_value \<Rightarrow> Locale" where
  "resolve_spec supportedLocales defaultLocale v =
     (case v of
        JString s \<Rightarrow> if s \<in> supportedLocales then s else defaultLocale
      | _ \<Rightarrow> defaultLocale)"

section \<open>Requests side by side\<close>

text \<open>
  The framework creates one context object per request. A store maps each request in
  flight to its context object. \<open>serve\<close> is the framework invoking a middleware for
  request \<open>r\<close>: the middleware is handed that request's object, and what follows goes on
  with the store in which this object is as the middleware passed it on. Another
  request can be served inside \<open>k\<close>, that is, while this one waits in \<open>await next()\<close>.
\<close>

definition serve ::
  "('c, 'a) MiddlewareHandler \<Rightarrow> 'k \<Rightarrow> ('k \<Rightarrow> 'c) \<Rightarrow> (('k \<Rightarrow> 'c) \<Rightarrow> 'a) \<Rightarrow> 'a" where
  "serve mw r store k = mw (store r) (\<lambda>c'. k (store(r := c')))"

section \<open>The fixtures of \<open>createI18n.test.ts\<close>\<close>

text \<open>
  The catalog, default locale and cookie getter of the test file (lines 7 to 16). A
  request carries its cookies; \<open>getCookie\<close> (hono/cookie) answers \<open>undefined\<close> for a
  cookie that is not there. \<open>fresh_context\<close> is a context as the framework creates it,
  with no variable set.
\<close>

definition test_messages :: "(string \<times> string) list Messages" where
  "test_messages =
     [(''en-EN'', [(''greeting'', ''Hi!'')]), (''de-DE'', [(''greeting'', ''Hallo!'')])]"

definition getCookie :: "((string \<times> string) list, 'vars) Context \<Rightarrow> string \<Rightarrow> js_value" where
  "getCookie c name = (case map_of (req c) name of None \<Rightarrow> JUndefined | Some v \<Rightarrow> JString v)"

definition test_getLocale :: "((string \<times> string) list, unit) Context GetLocale" where
  "test_getLocale c locales defaultLocale = getCookie c ''locale-cookie''"

definition fresh_context :: "(string \<times> string) list \<Rightarrow> ((string \<times> string) list, unit) Context" where
  "fresh_context cookies = \<lparr>req = cookies, var = \<lparr>i18n = None\<rparr>\<rparr>"

text \<open>
  A second catalog, for a second instance registered on the same application: its only
  key is \<open>fr-FR\<close>, which is no key of the catalog of the test file.
\<close>

definition french_messages :: "(string \<times> string) list Messages" where
  "french_messages = [(''fr-FR'', [(''greeting'', ''Salut!'')])]"

text \<open>
  Three requests in flight: request 101 carries the cookie \<open>de-DE\<close>, request 102 the
  unsupported \<open>tr-TR\<close>, request 103 none.
\<close>

definition test_store :: "nat \<Rightarrow> ((string \<times> string) list, unit) Context" where
  "test_store r =
     fresh_context
       (if r = 101 then [(''locale-cookie'', ''de-DE'')]
        else if r = 102 then [(''locale-cookie'', ''tr-TR'')]
        else [])"

section \<open>Basic facts\<close>

lemma array_includes_iff: "array_includes xs s \<longleftrightarrow> s \<in> set xs"
  by (induction xs) auto

lemma set_Object_keys: "set (Object_keys messages) = fst ` set messages"
  by (simp add: Object_keys_def)

lemma c_get_i18n_set: "c_get_i18n (c_set_i18n c v) = Some v"
  by (simp add: c_get_i18n_def c_set_i18n_def)

text \<open>Line 43 computes the specification's rule on the set of the array's elements.\<close>

lemma createI18nMiddleware_next:
  "createI18nMiddleware locales d g c next =
     next (c_set_i18n c \<lparr>locale_tag = resolve_spec (set locales) d (g c locales d)\<rparr>)"
  by (simp add: createI18nMiddleware_def resolve_spec_def array_includes_iff Let_def
      split: js_value.splits)

lemma resolve_spec_member:
  "d \<in> S \<Longrightarrow> resolve_spec S d v \<in> S"
  by (simp add: resolve_spec_def split: js_value.splits)

lemma createGetI18n_bound:
  "c_get_i18n c = Some v \<Longrightarrow> createGetI18n ct messages c = Inr (ct messages (locale_tag v))"
  by (simp add: createGetI18n_def)

lemma createGetI18n_absent:
  "c_get_i18n c = None \<Longrightarrow>
     createGetI18n ct messages c = Inl (Error ''createI18nMiddleware middleware not initialized'')"
  by (simp add: createGetI18n_def)

lemma createI18n_Inr:
  "createI18n ct messages d g = Inr inst \<longleftrightarrow>
     d \<in> fst ` set messages \<and>
     inst = \<lparr>getI18n = createGetI18n ct messages,
             i18nMiddleware = createI18nMiddleware (Object_keys messages) d g\<rparr>"
  by (auto simp: createI18n_def array_includes_iff set_Object_keys)

lemma createI18n_Inl:
  "createI18n ct messages d g = Inl e \<longleftrightarrow>
     d \<notin> fst ` set messages \<and> e = Error ''defaultLocale is not available in messages''"
  by (auto simp: createI18n_def array_includes_iff set_Object_keys)

lemma test_getLocale_cookie:
  "test_getLocale (fresh_context [(''locale-cookie'', v)]) ls d = JString v"
  "test_getLocale (fresh_context []) ls d = JUndefined"
  by (simp_all add: test_getLocale_def getCookie_def fresh_context_def)

section \<open>Locale resolution\<close>

text \<open>
  Claim C1. For every value the getter returns: when it is a string that is an element
  of the supported locales, the middleware binds exactly that string for the request;
  in every other case (not a string, or a string that is no element) it binds the
  default locale. The match is equality of whole strings.
\<close>

theorem resolve_exact_member_or_default:
  "(\<forall>s. getLocale c locales defaultLocale = JString s \<and> s \<in> set locales \<longrightarrow>
      createI18nMiddleware locales defaultLocale getLocale c next =
        next (c_set_i18n c \<lparr>locale_tag = s\<rparr>))
   \<and> ((\<nexists>s. getLocale c locales defaultLocale = JString s \<and> s \<in> set locales) \<longrightarrow>
      createI18nMiddleware locales defaultLocale getLocale c next =
        next (c_set_i18n c \<lparr>locale_tag = defaultLocale\<rparr>))
   \<and> createI18nMiddleware locales defaultLocale getLocale c next =
        next (c_set_i18n c \<lparr>locale_tag =
          resolve_spec (set locales) defaultLocale (getLocale c locales defaultLocale)\<rparr>)"
  by (auto simp: createI18nMiddleware_next resolve_spec_def split: js_value.splits)

text \<open>
  The cases of the test file, and the matches that are not made: a supported tag is
  bound; an unsupported tag, a missing cookie (\<open>undefined\<close>), a prefix of a supported
  tag, a tag in another letter case, \<open>null\<close> and a number all give the default.
\<close>

theorem resolve_exact_member_or_default_witness:
  "c_get_i18n (createI18nMiddleware [''en-EN'', ''de-DE''] ''en-EN'' test_getLocale
       (fresh_context [(''locale-cookie'', ''de-DE'')]) (\<lambda>c. c))
     = Some \<lparr>locale_tag = ''de-DE''\<rparr>
   \<and> c_get_i18n (createI18nMiddleware [''en-EN'', ''de-DE''] ''en-EN'' test_getLocale
       (fresh_context [(''locale-cookie'', ''tr-TR'')]) (\<lambda>c. c))
     = Some \<lparr>locale_tag = ''en-EN''\<rparr>
   \<and> c_get_i18n (createI18nMiddleware [''en-EN'', ''de-DE''] ''en-EN'' test_getLocale
       (fresh_context []) (\<lambda>c. c))
     = Some \<lparr>locale_tag = ''en-EN''\<rparr>
   \<and> c_get_i18n (createI18nMiddleware [''en-EN'', ''de-DE''] ''en-EN'' test_getLocale
       (fresh_context [(''locale-cookie'', ''de'')]) (\<lambda>c. c))
     = Some \<lparr>locale_tag = ''en-EN''\<rparr>
   \<and> c_get_i18n (createI18nMiddleware [''en-EN'', ''de-DE''] ''en-EN'' test_getLocale
       (fresh_context [(''locale-cookie'', ''DE-de'')]) (\<lambda>c. c))
     = Some \<lparr>locale_tag = ''en-EN''\<rparr>
   \<and> c_get_i18n (createI18nMiddleware [''en-EN'', ''de-DE''] ''en-EN'' (\<lambda>c ls d. JNull)
       (fresh_context [(''locale-cookie'', ''de-DE'')]) (\<lambda>c. c))
     = Some \<lparr>locale_tag = ''en-EN''\<rparr>
   \<and> c_get_i18n (createI18nMiddleware [''en-EN'', ''de-DE''] ''en-EN'' (\<lambda>c ls d. JNumber 7)
       (fresh_context [(''locale-cookie'', ''de-DE'')]) (\<lambda>c. c))
     = Some \<lparr>locale_tag = ''en-EN''\<rparr>"
  using
    resolve_exact_member_or_default [of test_getLocale
      "fresh_context [(''locale-cookie'', ''de-DE'')]" "[''en-EN'', ''de-DE'']" "''en-EN''" "\<lambda>c. c"]
    resolve_exact_member_or_default [of test_getLocale
      "fresh_context [(''locale-cookie'', ''tr-TR'')]" "[''en-EN'', ''de-DE'']" "''en-EN''" "\<lambda>c. c"]
    resolve_exact_member_or_default [of test_getLocale
      "fresh_context []" "[''en-EN'', ''de-DE'']" "''en-EN''" "\<lambda>c. c"]
    resolve_exact_member_or_default [of test_getLocale
      "fresh_context [(''locale-cookie'', ''de'')]" "[''en-EN'', ''de-DE'']" "''en-EN''" "\<lambda>c. c"]
    resolve_exact_member_or_default [of test_getLocale
      "fresh_context [(''locale-cookie'', ''DE-de'')]" "[''en-EN'', ''de-DE'']" "''en-EN''" "\<lambda>c. c"]
    resolve_exact_member_or_default [of "\<lambda>c ls d. JNull"
      "fresh_context [(''locale-cookie'', ''de-DE'')]" "[''en-EN'', ''de-DE'']" "''en-EN''" "\<lambda>c. c"]
    resolve_exact_member_or_default [of "\<lambda>c ls d. JNumber 7"
      "fresh_context [(''locale-cookie'', ''de-DE'')]" "[''en-EN'', ''de-DE'']" "''en-EN''" "\<lambda>c. c"]
  by (simp add: test_getLocale_cookie c_get_i18n_set)

section \<open>Construction\<close>

text \<open>
  Claim C2. \<open>createI18n\<close> throws the error with message
  "defaultLocale is not available in messages" if and only if the default locale is not
  a key of the catalog. The throw comes before the \<open>return\<close>: a call that throws yields
  no middleware and no accessor, and one that returns them had its default among the
  keys.
\<close>

theorem construction_fails_iff_default_missing:
  fixes getLocale :: "('req, 'vars) Context GetLocale"
  shows
  "(createI18n createTranslate messages defaultLocale getLocale
      = (Inl (Error ''defaultLocale is not available in messages'')
         :: error + (('req, 'vars) Context, 't, 'a) I18n))
     = (defaultLocale \<notin> fst ` set messages)
   \<and> (\<exists>inst :: (('req, 'vars) Context, 't, 'a) I18n. createI18n createTranslate messages defaultLocale getLocale = Inr inst)
     = (defaultLocale \<in> fst ` set messages)
   \<and> (\<exists>e. createI18n createTranslate messages defaultLocale getLocale
            = (Inl e :: error + (('req, 'vars) Context, 't, 'a) I18n))
     = (defaultLocale \<notin> fst ` set messages)"
  by (simp add: createI18n_Inr createI18n_Inl)

theorem construction_fails_iff_default_missing_witness:
  "createI18n Pair test_messages ''tr-TR'' test_getLocale
     = (Inl (Error ''defaultLocale is not available in messages'')
        :: error + (((string \<times> string) list, unit) Context,
                     (string \<times> string) list Messages \<times> Locale, unit) I18n)
   \<and> (\<exists>inst :: (((string \<times> string) list, unit) Context,
                   (string \<times> string) list Messages \<times> Locale, unit) I18n.
        createI18n Pair test_messages ''en-EN'' test_getLocale = Inr inst)"
  using
    construction_fails_iff_default_missing
      [where ?'a = unit, of Pair test_messages "''tr-TR''" test_getLocale]
    construction_fails_iff_default_missing
      [where ?'a = unit, of Pair test_messages "''en-EN''" test_getLocale]
  by (simp add: test_messages_def)

text \<open>
  Claim C5. The list of supported locales is \<open>Object.keys(messages)\<close>, taken when
  \<open>createI18n\<close> runs and held by the middleware it returns: the middleware is
  \<open>createI18nMiddleware\<close> on that list, hands that list to the getter, and tests
  membership in it, that is, in the key set of the catalog, for every context.
\<close>

theorem supported_locales_are_catalog_keys:
  assumes "createI18n createTranslate messages defaultLocale getLocale = Inr inst"
  shows
    "i18nMiddleware inst = createI18nMiddleware (Object_keys messages) defaultLocale getLocale
     \<and> set (Object_keys messages) = fst ` set messages
     \<and> i18nMiddleware inst c next =
         next (c_set_i18n c \<lparr>locale_tag =
           resolve_spec (fst ` set messages) defaultLocale
             (getLocale c (Object_keys messages) defaultLocale)\<rparr>)"
proof -
  from assms have mw:
    "i18nMiddleware inst = createI18nMiddleware (Object_keys messages) defaultLocale getLocale"
    by (simp add: createI18n_Inr)
  show ?thesis
    by (simp add: mw createI18nMiddleware_next set_Object_keys)
qed

theorem supported_locales_are_catalog_keys_witness:
  "\<exists>inst. createI18n Pair test_messages ''en-EN'' test_getLocale = Inr inst
     \<and> c_get_i18n (i18nMiddleware inst (fresh_context [(''locale-cookie'', ''de-DE'')]) (\<lambda>c. c))
         = Some \<lparr>locale_tag = ''de-DE''\<rparr>
     \<and> c_get_i18n (i18nMiddleware inst (fresh_context [(''locale-cookie'', ''tr-TR'')]) (\<lambda>c. c))
         = Some \<lparr>locale_tag = ''en-EN''\<rparr>"
proof -
  obtain inst :: "(((string \<times> string) list, unit) Context,
                   (string \<times> string) list Messages \<times> Locale,
                   ((string \<times> string) list, unit) Context) I18n"
    where inst: "createI18n Pair test_messages ''en-EN'' test_getLocale = Inr inst"
    by (simp add: createI18n_Inr test_messages_def)
  have keys: "fst ` set test_messages = {''en-EN'', ''de-DE''}"
    by (simp add: test_messages_def)
  have "c_get_i18n (i18nMiddleware inst (fresh_context [(''locale-cookie'', ''de-DE'')]) (\<lambda>c. c))
          = Some \<lparr>locale_tag = ''de-DE''\<rparr>"
    using supported_locales_are_catalog_keys
      [OF inst, THEN conjunct2, THEN conjunct2,
        of "fresh_context [(''locale-cookie'', ''de-DE'')]" "\<lambda>c. c"]
    by (simp add: keys test_getLocale_cookie c_get_i18n_set resolve_spec_def)
  moreover
  have "c_get_i18n (i18nMiddleware inst (fresh_context [(''locale-cookie'', ''tr-TR'')]) (\<lambda>c. c))
          = Some \<lparr>locale_tag = ''en-EN''\<rparr>"
    using supported_locales_are_catalog_keys
      [OF inst, THEN conjunct2, THEN conjunct2,
        of "fresh_context [(''locale-cookie'', ''tr-TR'')]" "\<lambda>c. c"]
    by (simp add: keys test_getLocale_cookie c_get_i18n_set resolve_spec_def)
  ultimately show ?thesis
    using inst by blast
qed

section \<open>The context accessor\<close>

text \<open>
  Claim C3, as amended. On a context whose \<open>i18n\<close> entry is absent the accessor throws
  an \<open>Error\<close> whose message is "createI18nMiddleware middleware not initialized"; it
  returns no translation function and puts no locale in the place of the missing one.
\<close>

theorem accessor_fails_when_slot_absent:
  assumes "c_get_i18n c = None"
  shows
    "createGetI18n createTranslate messages c
       = Inl (Error ''createI18nMiddleware middleware not initialized'')
     \<and> (createI18n createTranslate messages defaultLocale getLocale = Inr inst \<longrightarrow>
          getI18n inst c = Inl (Error ''createI18nMiddleware middleware not initialized''))"
  using assms by (auto simp: createGetI18n_absent createI18n_Inr)

theorem accessor_fails_when_slot_absent_witness:
  "c_get_i18n (fresh_context []) = None
   \<and> createGetI18n Pair test_messages (fresh_context [])
       = Inl (Error ''createI18nMiddleware middleware not initialized'')
   \<and> (\<exists>inst :: (((string \<times> string) list, unit) Context,
                   (string \<times> string) list Messages \<times> Locale, unit) I18n.
        createI18n Pair test_messages ''en-EN'' test_getLocale = Inr inst
        \<and> getI18n inst (fresh_context [])
            = Inl (Error ''createI18nMiddleware middleware not initialized''))"
proof -
  have absent: "c_get_i18n (fresh_context []) = None"
    by (simp add: c_get_i18n_def fresh_context_def)
  obtain inst :: "(((string \<times> string) list, unit) Context,
                   (string \<times> string) list Messages \<times> Locale, unit) I18n"
    where inst: "createI18n Pair test_messages ''en-EN'' test_getLocale = Inr inst"
    by (simp add: createI18n_Inr test_messages_def)
  from accessor_fails_when_slot_absent
    [OF absent, where createTranslate = Pair and messages = test_messages
      and defaultLocale = "''en-EN''" and getLocale = test_getLocale and inst = inst]
  show ?thesis using absent inst by simp
qed

text \<open>
  The message the claim names is not the one thrown: the handler of the test at lines
  70 to 83 runs the accessor with no middleware registered and reads the longer text.
\<close>

theorem accessor_message_counterexample:
  "c_get_i18n (fresh_context []) = None
   \<and> createGetI18n Pair test_messages (fresh_context [])
       \<noteq> Inl (Error ''middleware not initialized'')"
  by (simp add: createGetI18n_def c_get_i18n_def fresh_context_def)

text \<open>
  Claim C4. On a context whose \<open>i18n\<close> entry is present the accessor returns what the
  translation factory makes of the catalog given to \<open>createI18n\<close> and the locale stored
  in the entry. This holds for every factory; with the factory that returns its two
  arguments, the result is that very pair.
\<close>

theorem accessor_passes_catalog_and_stored_locale:
  assumes "c_get_i18n c = Some v"
  shows
    "createGetI18n createTranslate messages c = Inr (createTranslate messages (locale_tag v))
     \<and> createGetI18n Pair messages c = Inr (messages, locale_tag v)
     \<and> (createI18n createTranslate messages defaultLocale getLocale = Inr inst \<longrightarrow>
          getI18n inst c = Inr (createTranslate messages (locale_tag v)))"
  using assms by (auto simp: createGetI18n_bound createI18n_Inr)

theorem accessor_passes_catalog_and_stored_locale_witness:
  "c_get_i18n (c_set_i18n (fresh_context []) \<lparr>locale_tag = ''de-DE''\<rparr>)
     = Some \<lparr>locale_tag = ''de-DE''\<rparr>
   \<and> (\<exists>inst :: (((string \<times> string) list, unit) Context,
                   (string \<times> string) list Messages \<times> Locale, unit) I18n.
        createI18n Pair test_messages ''en-EN'' test_getLocale = Inr inst
        \<and> getI18n inst (c_set_i18n (fresh_context []) \<lparr>locale_tag = ''de-DE''\<rparr>)
            = Inr (test_messages, ''de-DE''))"
proof -
  have bound: "c_get_i18n (c_set_i18n (fresh_context []) \<lparr>locale_tag = ''de-DE''\<rparr>)
                 = Some \<lparr>locale_tag = ''de-DE''\<rparr>"
    by (rule c_get_i18n_set)
  obtain inst :: "(((string \<times> string) list, unit) Context,
                   (string \<times> string) list Messages \<times> Locale, unit) I18n"
    where inst: "createI18n Pair test_messages ''en-EN'' test_getLocale = Inr inst"
    by (simp add: createI18n_Inr test_messages_def)
  from accessor_passes_catalog_and_stored_locale
    [OF bound, where createTranslate = Pair and messages = test_messages
      and defaultLocale = "''en-EN''" and getLocale = test_getLocale and inst = inst]
  show ?thesis using bound inst by simp
qed

section \<open>The middleware and the context slot\<close>



text \<open>
  Claim C7. The context the middleware passes on is the one it was entered with, with
  the \<open>i18n\<close> entry replaced: the request data and every other variable are as before.
  The middleware is a function of its configuration and of that one context. So when
  two requests with their own context objects are served, the second while the first
  waits in \<open>next\<close>, in either order, each object ends with the locale resolved from its
  own request, and no other object of the store changes.
\<close>

theorem middleware_touches_only_own_slot:
  fixes store :: "'k \<Rightarrow> ('req, 'vars) Context"
    and k :: "('k \<Rightarrow> ('req, 'vars) Context) \<Rightarrow> 'a"
  shows
    "(\<exists>v. (\<forall>next :: (('req, 'vars) Context, 'a) Next.
            createI18nMiddleware locales defaultLocale getLocale c next
              = next (c\<lparr>var := (var c)\<lparr>i18n := Some v\<rparr>\<rparr>))
          \<and> req (c\<lparr>var := (var c)\<lparr>i18n := Some v\<rparr>\<rparr>) = req c
          \<and> ContextVariableMap.more (var (c\<lparr>var := (var c)\<lparr>i18n := Some v\<rparr>\<rparr>))
              = ContextVariableMap.more (var c))
     \<and> (r1 \<noteq> r2 \<longrightarrow>
          serve (createI18nMiddleware locales defaultLocale getLocale) r1 store
            (\<lambda>store1. serve (createI18nMiddleware locales defaultLocale getLocale) r2 store1 k)
          = k (store
                (r1 := c_set_i18n (store r1) \<lparr>locale_tag =
                   resolve_spec (set locales) defaultLocale
                     (getLocale (store r1) locales defaultLocale)\<rparr>,
                 r2 := c_set_i18n (store r2) \<lparr>locale_tag =
                   resolve_spec (set locales) defaultLocale
                     (getLocale (store r2) locales defaultLocale)\<rparr>))
          \<and> serve (createI18nMiddleware locales defaultLocale getLocale) r2 store
            (\<lambda>store1. serve (createI18nMiddleware locales defaultLocale getLocale) r1 store1 k)
          = k (store
                (r1 := c_set_i18n (store r1) \<lparr>locale_tag =
                   resolve_spec (set locales) defaultLocale
                     (getLocale (store r1) locales defaultLocale)\<rparr>,
                 r2 := c_set_i18n (store r2) \<lparr>locale_tag =
                   resolve_spec (set locales) defaultLocale
                     (getLocale (store r2) locales defaultLocale)\<rparr>)))"
proof (intro conjI impI)
  show "\<exists>v. (\<forall>next :: (('req, 'vars) Context, 'a) Next.
            createI18nMiddleware locales defaultLocale getLocale c next
              = next (c\<lparr>var := (var c)\<lparr>i18n := Some v\<rparr>\<rparr>))
          \<and> req (c\<lparr>var := (var c)\<lparr>i18n := Some v\<rparr>\<rparr>) = req c
          \<and> ContextVariableMap.more (var (c\<lparr>var := (var c)\<lparr>i18n := Some v\<rparr>\<rparr>))
              = ContextVariableMap.more (var c)"
    by (intro exI [of _ "\<lparr>locale_tag =
          resolve_spec (set locales) defaultLocale (getLocale c locales defaultLocale)\<rparr>"])
      (simp add: createI18nMiddleware_next c_set_i18n_def)
next
  assume "r1 \<noteq> r2"
  then show "serve (createI18nMiddleware locales defaultLocale getLocale) r1 store
            (\<lambda>store1. serve (createI18nMiddleware locales defaultLocale getLocale) r2 store1 k)
          = k (store
                (r1 := c_set_i18n (store r1) \<lparr>locale_tag =
                   resolve_spec (set locales) defaultLocale
                     (getLocale (store r1) locales defaultLocale)\<rparr>,
                 r2 := c_set_i18n (store r2) \<lparr>locale_tag =
                   resolve_spec (set locales) defaultLocale
                     (getLocale (store r2) locales defaultLocale)\<rparr>))"
    by (simp add: serve_def createI18nMiddleware_next)
next
  assume "r1 \<noteq> r2"
  then show "serve (createI18nMiddleware locales defaultLocale getLocale) r2 store
            (\<lambda>store1. serve (createI18nMiddleware locales defaultLocale getLocale) r1 store1 k)
          = k (store
                (r1 := c_set_i18n (store r1) \<lparr>locale_tag =
                   resolve_spec (set locales) defaultLocale
                     (getLocale (store r1) locales defaultLocale)\<rparr>,
                 r2 := c_set_i18n (store r2) \<lparr>locale_tag =
                   resolve_spec (set locales) defaultLocale
                     (getLocale (store r2) locales defaultLocale)\<rparr>))"
    by (simp add: serve_def createI18nMiddleware_next fun_upd_twist)
qed

theorem middleware_touches_only_own_slot_witness:
  "(101::nat) \<noteq> 102
   \<and> serve (createI18nMiddleware [''en-EN'', ''de-DE''] ''en-EN'' test_getLocale) 101 test_store
       (\<lambda>store1. serve (createI18nMiddleware [''en-EN'', ''de-DE''] ''en-EN'' test_getLocale) 102
          store1 (\<lambda>store2. (c_get_i18n (store2 101), c_get_i18n (store2 102), c_get_i18n (store2 103))))
     = (Some \<lparr>locale_tag = ''de-DE''\<rparr>, Some \<lparr>locale_tag = ''en-EN''\<rparr>, None)"
proof -
  have ne: "(101::nat) \<noteq> 102" by simp
  have absent: "c_get_i18n (test_store 103) = None"
    by (simp add: test_store_def fresh_context_def c_get_i18n_def)
  have g1: "test_getLocale (test_store 101) [''en-EN'', ''de-DE''] ''en-EN'' = JString ''de-DE''"
    by (simp add: test_store_def test_getLocale_cookie)
  have g2: "test_getLocale (test_store 102) [''en-EN'', ''de-DE''] ''en-EN'' = JString ''tr-TR''"
    by (simp add: test_store_def test_getLocale_cookie)
  from middleware_touches_only_own_slot
    [where locales = "[''en-EN'', ''de-DE'']" and defaultLocale = "''en-EN''"
      and getLocale = test_getLocale and ?r1.0 = "101::nat" and ?r2.0 = "102::nat"
      and store = test_store
      and k = "\<lambda>store2. (c_get_i18n (store2 101), c_get_i18n (store2 102), c_get_i18n (store2 103))",
      THEN conjunct2, rule_format, OF ne, THEN conjunct1]
  show ?thesis
    using ne by (simp add: g1 g2 absent resolve_spec_def c_get_i18n_set)
qed

text \<open>
  Claim C8, as amended. A run of the middleware sets the slot once, to a present value,
  before \<open>next\<close>, and its answer is the answer of \<open>next\<close>: it does nothing to the context
  afterwards. The accessor takes the context and returns a value only. So when the
  middleware runs on a context whose slot is absent and what runs downstream leaves the
  slot as it finds it, the slot ends the request holding the locale bound at the start.
  The write has no guard: the slot handed on does not depend on what the slot held.
\<close>

theorem slot_set_once_per_middleware_run:
  fixes c :: "('req, 'vars) Context"
    and downstream :: "(('req, 'vars) Context, ('req, 'vars) Context) Next"
  shows
    "(\<forall>next :: (('req, 'vars) Context, 'a) Next.
        createI18nMiddleware locales defaultLocale getLocale c next
          = next (c_set_i18n c \<lparr>locale_tag =
              resolve_spec (set locales) defaultLocale (getLocale c locales defaultLocale)\<rparr>))
     \<and> c_get_i18n (c_set_i18n c \<lparr>locale_tag =
              resolve_spec (set locales) defaultLocale (getLocale c locales defaultLocale)\<rparr>)
         \<noteq> None
     \<and> (c_get_i18n c = None \<and> (\<forall>a. c_get_i18n (downstream a) = c_get_i18n a) \<longrightarrow>
          c_get_i18n (createI18nMiddleware locales defaultLocale getLocale c downstream)
            = Some \<lparr>locale_tag =
                resolve_spec (set locales) defaultLocale (getLocale c locales defaultLocale)\<rparr>)"
  by (simp add: createI18nMiddleware_next c_get_i18n_set)

theorem slot_set_once_per_middleware_run_witness:
  "c_get_i18n (fresh_context [(''locale-cookie'', ''de-DE'')]) = None
   \<and> (\<forall>a :: ((string \<times> string) list, unit) Context.
         c_get_i18n (a\<lparr>req := []\<rparr>) = c_get_i18n a)
   \<and> c_get_i18n (createI18nMiddleware [''en-EN'', ''de-DE''] ''en-EN'' test_getLocale
        (fresh_context [(''locale-cookie'', ''de-DE'')]) (\<lambda>a. a\<lparr>req := []\<rparr>))
       = Some \<lparr>locale_tag = ''de-DE''\<rparr>"
proof -
  have absent: "c_get_i18n (fresh_context [(''locale-cookie'', ''de-DE'')]) = None"
    by (simp add: c_get_i18n_def fresh_context_def)
  have reads: "\<forall>a :: ((string \<times> string) list, unit) Context.
                 c_get_i18n (a\<lparr>req := []\<rparr>) = c_get_i18n a"
    by (simp add: c_get_i18n_def)
  from slot_set_once_per_middleware_run
    [where ?'a = unit and locales = "[''en-EN'', ''de-DE'']" and defaultLocale = "''en-EN''"
      and getLocale = test_getLocale and c = "fresh_context [(''locale-cookie'', ''de-DE'')]"
      and downstream = "\<lambda>a. a\<lparr>req := []\<rparr>",
      THEN conjunct2, THEN conjunct2, rule_format, OF conjI, OF absent reads]
  show ?thesis
    using absent reads by (simp add: test_getLocale_cookie resolve_spec_def)
qed

text \<open>
  The claim as written fails when two middlewares run for one request: two instances
  over the same catalog with the defaults \<open>de-DE\<close> and \<open>en-EN\<close>, registered one after
  the other, and a request without cookie. The slot is absent at first; the first
  middleware passes on the context bound to \<open>de-DE\<close>; the second, entered with that
  context as the \<open>next\<close> of the first, passes it on bound to \<open>en-EN\<close>. (\<open>id\<close> as \<open>next\<close>
  answers with the context passed on.)
\<close>

theorem slot_rebound_counterexample:
  "c_get_i18n (fresh_context []) = None
   \<and> createI18nMiddleware [''en-EN'', ''de-DE''] ''de-DE'' test_getLocale (fresh_context []) id
       = \<lparr>req = [], var = \<lparr>i18n = Some \<lparr>locale_tag = ''de-DE''\<rparr>\<rparr>\<rparr>
   \<and> createI18nMiddleware [''en-EN'', ''de-DE''] ''en-EN'' test_getLocale
         \<lparr>req = [], var = \<lparr>i18n = Some \<lparr>locale_tag = ''de-DE''\<rparr>\<rparr>\<rparr> id
       = \<lparr>req = [], var = \<lparr>i18n = Some \<lparr>locale_tag = ''en-EN''\<rparr>\<rparr>\<rparr>"
  by (simp add: createI18nMiddleware_def test_getLocale_def getCookie_def fresh_context_def
      c_set_i18n_def c_get_i18n_def)

text \<open>
  Claim C9, as amended. When \<open>createI18n\<close> returned, the locale its middleware binds is
  a key of the catalog, for every context and every getter; so on the context as this
  middleware passes it on, the accessor gives the factory the catalog and a key of it.
  The accessor makes no membership test of its own: it passes the locale the slot
  holds, whoever wrote it.
\<close>

theorem bound_locale_is_catalog_key:
  fixes inst :: "(('req, 'vars) Context, 't, 'a) I18n"
  assumes "createI18n createTranslate messages defaultLocale getLocale = Inr inst"
  shows
    "\<exists>l. l \<in> fst ` set messages
       \<and> (\<forall>next. i18nMiddleware inst c next = next (c_set_i18n c \<lparr>locale_tag = l\<rparr>))
       \<and> c_get_i18n (c_set_i18n c \<lparr>locale_tag = l\<rparr>) = Some \<lparr>locale_tag = l\<rparr>
       \<and> getI18n inst (c_set_i18n c \<lparr>locale_tag = l\<rparr>) = Inr (createTranslate messages l)
       \<and> (\<forall>a v. c_get_i18n a = Some v \<longrightarrow>
             getI18n inst a = Inr (createTranslate messages (locale_tag v)))"
proof -
  let ?l = "resolve_spec (set (Object_keys messages)) defaultLocale
              (getLocale c (Object_keys messages) defaultLocale)"
  from assms have key: "defaultLocale \<in> fst ` set messages"
    and mw: "i18nMiddleware inst
               = createI18nMiddleware (Object_keys messages) defaultLocale getLocale"
    and acc: "getI18n inst = createGetI18n createTranslate messages"
    by (simp_all add: createI18n_Inr)
  from key have "?l \<in> fst ` set messages"
    using resolve_spec_member [of defaultLocale "set (Object_keys messages)"]
    by (simp add: set_Object_keys)
  moreover have "\<forall>next. i18nMiddleware inst c next = next (c_set_i18n c \<lparr>locale_tag = ?l\<rparr>)"
    by (simp add: mw createI18nMiddleware_next)
  moreover have "getI18n inst (c_set_i18n c \<lparr>locale_tag = ?l\<rparr>) = Inr (createTranslate messages ?l)"
    by (simp add: acc createGetI18n_bound [OF c_get_i18n_set])
  moreover have "\<forall>a v. c_get_i18n a = Some v \<longrightarrow>
                   getI18n inst a = Inr (createTranslate messages (locale_tag v))"
    by (simp add: acc createGetI18n_bound)
  ultimately show ?thesis
    using c_get_i18n_set by blast
qed

text \<open>
  The tests at lines 85 to 113: the handler behind the middleware calls the accessor.
  With the cookie \<open>tr-TR\<close> the factory is given the catalog and a key of it.
\<close>

theorem bound_locale_is_catalog_key_witness:
  "\<exists>(inst :: (((string \<times> string) list, unit) Context,
               (string \<times> string) list Messages \<times> Locale,
               error + (string \<times> string) list Messages \<times> Locale) I18n) l.
     createI18n Pair test_messages ''en-EN'' test_getLocale = Inr inst
     \<and> l \<in> fst ` set test_messages
     \<and> i18nMiddleware inst (fresh_context [(''locale-cookie'', ''tr-TR'')]) (getI18n inst)
         = Inr (test_messages, l)"
proof -
  obtain inst :: "(((string \<times> string) list, unit) Context,
                   (string \<times> string) list Messages \<times> Locale,
                   error + (string \<times> string) list Messages \<times> Locale) I18n"
    where inst: "createI18n Pair test_messages ''en-EN'' test_getLocale = Inr inst"
    by (simp add: createI18n_Inr test_messages_def)
  from bound_locale_is_catalog_key [OF inst, of "fresh_context [(''locale-cookie'', ''tr-TR'')]"]
  obtain l where "l \<in> fst ` set test_messages"
    and "\<forall>next. i18nMiddleware inst (fresh_context [(''locale-cookie'', ''tr-TR'')]) next
           = next (c_set_i18n (fresh_context [(''locale-cookie'', ''tr-TR'')]) \<lparr>locale_tag = l\<rparr>)"
    and "getI18n inst (c_set_i18n (fresh_context [(''locale-cookie'', ''tr-TR'')]) \<lparr>locale_tag = l\<rparr>)
           = Inr (test_messages, l)"
    by blast
  then show ?thesis
    using inst by auto
qed

text \<open>
  The claim as written says the accessor always passes a key of its catalog. It does
  not when another instance wrote the slot: the instance over \<open>french_messages\<close> and the
  instance of the test file are both constructed, both middlewares are registered, the
  French one last, and the request has no cookie. The French middleware passes on the
  context bound to \<open>fr-FR\<close>, and the accessor of the test file's instance, called by the
  handler on that context, gives the factory its own catalog and \<open>fr-FR\<close>, which is no
  key of it.
\<close>

theorem accessor_passes_foreign_locale_counterexample:
  "createI18n Pair test_messages ''en-EN'' test_getLocale
     = (Inr \<lparr>getI18n = createGetI18n Pair test_messages,
              i18nMiddleware =
                createI18nMiddleware (Object_keys test_messages) ''en-EN'' test_getLocale\<rparr>
        :: error + (((string \<times> string) list, unit) Context,
                     (string \<times> string) list Messages \<times> Locale,
                     ((string \<times> string) list, unit) Context) I18n)
   \<and> createI18n Pair french_messages ''fr-FR'' test_getLocale
     = (Inr \<lparr>getI18n = createGetI18n Pair french_messages,
              i18nMiddleware =
                createI18nMiddleware (Object_keys french_messages) ''fr-FR'' test_getLocale\<rparr>
        :: error + (((string \<times> string) list, unit) Context,
                     (string \<times> string) list Messages \<times> Locale,
                     ((string \<times> string) list, unit) Context) I18n)
   \<and> createI18nMiddleware (Object_keys test_messages) ''en-EN'' test_getLocale
         (fresh_context []) id
     = \<lparr>req = [], var = \<lparr>i18n = Some \<lparr>locale_tag = ''en-EN''\<rparr>\<rparr>\<rparr>
   \<and> createI18nMiddleware (Object_keys french_messages) ''fr-FR'' test_getLocale
         \<lparr>req = [], var = \<lparr>i18n = Some \<lparr>locale_tag = ''en-EN''\<rparr>\<rparr>\<rparr> id
     = \<lparr>req = [], var = \<lparr>i18n = Some \<lparr>locale_tag = ''fr-FR''\<rparr>\<rparr>\<rparr>
   \<and> createGetI18n Pair test_messages
         \<lparr>req = [], var = \<lparr>i18n = Some \<lparr>locale_tag = ''fr-FR''\<rparr>\<rparr>\<rparr>
     = Inr (test_messages, ''fr-FR'')
   \<and> ''fr-FR'' \<notin> fst ` set test_messages"
  by (simp add: createI18n_def createI18nMiddleware_def createGetI18n_def Object_keys_def
      test_messages_def french_messages_def test_getLocale_def getCookie_def fresh_context_def
      c_set_i18n_def c_get_i18n_def)

text \<open>
  Claim C10. With an empty list of supported locales \<open>includes\<close> is false for every
  string, so for every value the getter returns the middleware binds the default locale
  and goes on to \<open>next\<close>; its body has no \<open>throw\<close>.
\<close>

theorem empty_locales_bind_default:
  "createI18nMiddleware [] defaultLocale getLocale c next
     = next (c_set_i18n c \<lparr>locale_tag = defaultLocale\<rparr>)
   \<and> c_get_i18n (c_set_i18n c \<lparr>locale_tag = defaultLocale\<rparr>)
     = Some \<lparr>locale_tag = defaultLocale\<rparr>
   \<and> \<not> array_includes [] s"
  by (simp add: createI18nMiddleware_next resolve_spec_def c_get_i18n_set split: js_value.splits)

theorem empty_locales_bind_default_witness:
  "createI18nMiddleware [] ''en-EN'' test_getLocale (fresh_context [(''locale-cookie'', ''de-DE'')])
     c_get_i18n
   = Some \<lparr>locale_tag = ''en-EN''\<rparr>"
  using empty_locales_bind_default
    [of "''en-EN''" test_getLocale "fresh_context [(''locale-cookie'', ''de-DE'')]" c_get_i18n]
  by simp

end
